theory Spec2Isabelle
  imports Complex_Main
begin

section \<open>JavaScript values\<close>

text \<open>
  The validators receive parsed JSON: \<open>undefined\<close> (an absent property), \<open>null\<close>,
  booleans, numbers, strings, arrays and objects. A number is a rational (every finite
  double is one; \<open>-0\<close> is \<open>0\<close>) or one of \<open>NaN\<close>, \<open>Infinity\<close>, \<open>-Infinity\<close>.
  An object is the list of its own properties; the first binding of a key is the one read.
  Strings are byte sequences (UTF-8 for the text outside ASCII).
\<close>

datatype jsnum = Num rat | NaN | Infinity | NegInfinity

datatype jsval =
    JUndefined
  | JNull
  | JBool bool
  | JNum jsnum
  | JStr string
  | JArr "jsval list"
  | JObj "(string \<times> jsval) list"

datatype exn = TypeError

text \<open>\<open>v[k]\<close>: reading a property of \<open>undefined\<close> or \<open>null\<close> throws a \<open>TypeError\<close>;
  an object gives its own property or \<open>undefined\<close>. The keys read by this program are the
  field names of the schema catalog and of the booking payload, none of which is an array
  index or a name the built-in prototypes define, so a primitive or an array gives
  \<open>undefined\<close> for them.\<close>

fun nullish :: "jsval \<Rightarrow> bool" where
  "nullish JUndefined = True"
| "nullish JNull = True"
| "nullish _ = False"

fun js_prop :: "jsval \<Rightarrow> string \<Rightarrow> jsval" where
  "js_prop (JObj kvs) k = (case map_of kvs k of Some v \<Rightarrow> v | None \<Rightarrow> JUndefined)"
| "js_prop _ k = JUndefined"

definition js_get :: "jsval \<Rightarrow> string \<Rightarrow> exn + jsval" where
  "js_get v k = (if nullish v then Inl TypeError else Inr (js_prop v k))"

text \<open>Truthiness (\<open>ToBoolean\<close>), \<open>Array.isArray\<close>, \<open>typeof v === 'number'\<close> and
  \<open>a < b\<close> for a number \<open>a\<close> and an integer constant \<open>b\<close>.\<close>

fun truthy :: "jsval \<Rightarrow> bool" where
  "truthy JUndefined = False"
| "truthy JNull = False"
| "truthy (JBool b) = b"
| "truthy (JNum (Num q)) = (q \<noteq> 0)"
| "truthy (JNum NaN) = False"
| "truthy (JNum _) = True"
| "truthy (JStr s) = (s \<noteq> [])"
| "truthy (JArr _) = True"
| "truthy (JObj _) = True"

fun isArray :: "jsval \<Rightarrow> bool" where
  "isArray (JArr _) = True"
| "isArray _ = False"

fun is_number :: "jsval \<Rightarrow> bool" where
  "is_number (JNum _) = True"
| "is_number _ = False"

fun num_less :: "jsnum \<Rightarrow> int \<Rightarrow> bool" where
  "num_less (Num q) m = (q < of_int m)"
| "num_less NaN m = False"
| "num_less Infinity m = False"
| "num_less NegInfinity m = True"

fun js_less :: "jsval \<Rightarrow> int \<Rightarrow> bool" where
  "js_less (JNum n) m = num_less n m"
| "js_less _ m = False"

section \<open>The schema catalog (blockSchemas.js)\<close>

text \<open>A field rule is an object literal with \<open>type\<close>, \<open>label\<close>, \<open>required\<close> and, where
  written, \<open>min\<close>, \<open>options\<close>, \<open>minItems\<close>, \<open>maxItems\<close> and \<open>itemSchema\<close>. A key the
  literal does not write is \<open>None\<close> (for \<open>required\<close>: \<open>False\<close>, which the validator's
  truthiness test cannot tell from an absent key). The keys \<open>name\<close>, \<open>description\<close>,
  \<open>default\<close> and \<open>defaultData\<close> are never read by the validator and are left out.
  The rule's \<open>min\<close> is \<open>min_val\<close> here, the schema's \<open>type\<close> is \<open>btype\<close> and its
  \<open>fields\<close> is \<open>fields'\<close>, in the order the literal writes the entries. Labels are the
  UTF-8 bytes of the source's text.\<close>

datatype kind = KText | KRichtext | KTextarea | KNumber | KBoolean | KImage | KSelect | KArray

record sub_rule =
  type :: kind
  label :: "string option"
  required :: bool
  min_val :: "int option"
  options :: "string list option"

record field_rule = sub_rule +
  minItems :: "nat option"
  maxItems :: "nat option"
  itemSchema :: "(string \<times> sub_rule) list option"

record block_schema =
  btype :: string
  fields' :: "(string \<times> field_rule) list"

definition intro_schema :: block_schema where
  "intro_schema = \<lparr>btype = ''intro'', fields' = [
    (''title'',
      \<lparr>type = KText, label = Some (''Ti'' @ [CHR 0xC3, CHR 0xAA] @ ''u '' @ [CHR 0xC4, CHR 0x91, CHR 0xE1, CHR 0xBB, CHR 0x81] @ '' (H1)''),
        required = True, min_val = None, options = None,
        minItems = None, maxItems = None,
        itemSchema = None\<rparr>),
    (''banner_image_url'',
      \<lparr>type = KImage, label = Some ([CHR 0xE1, CHR 0xBA, CHR 0xA2] @ ''nh n'' @ [CHR 0xE1, CHR 0xBB, CHR 0x81] @ ''n Banner''),
        required = True, min_val = None, options = None,
        minItems = None, maxItems = None,
        itemSchema = None\<rparr>)]\<rparr>"

definition definition_schema :: block_schema where
  "definition_schema = \<lparr>btype = ''definition'', fields' = [
    (''title'',
      \<lparr>type = KText, label = Some (''Ti'' @ [CHR 0xC3, CHR 0xAA] @ ''u '' @ [CHR 0xC4, CHR 0x91, CHR 0xE1, CHR 0xBB, CHR 0x81] @ '' m'' @ [CHR 0xE1, CHR 0xBB, CHR 0xA5] @ ''c''),
        required = True, min_val = None, options = None,
        minItems = None, maxItems = None,
        itemSchema = None\<rparr>),
    (''content'',
      \<lparr>type = KRichtext, label = Some (''N'' @ [CHR 0xE1, CHR 0xBB, CHR 0x99] @ ''i dung (HTML)''),
        required = True, min_val = None, options = None,
        minItems = None, maxItems = None,
        itemSchema = None\<rparr>)]\<rparr>"

definition pricing_schema :: block_schema where
  "pricing_schema = \<lparr>btype = ''pricing'', fields' = [
    (''service_title'',
      \<lparr>type = KText, label = Some (''T'' @ [CHR 0xC3, CHR 0xAA] @ ''n b'' @ [CHR 0xE1, CHR 0xBA, CHR 0xA3] @ ''ng gi'' @ [CHR 0xC3, CHR 0xA1]),
        required = True, min_val = None, options = None,
        minItems = None, maxItems = None,
        itemSchema = None\<rparr>),
    (''note'',
      \<lparr>type = KTextarea, label = Some (''Ghi ch'' @ [CHR 0xC3, CHR 0xBA] @ '' chung''),
        required = False, min_val = None, options = None,
        minItems = None, maxItems = None,
        itemSchema = None\<rparr>),
    (''subservices'',
      \<lparr>type = KArray, label = Some (''Danh s'' @ [CHR 0xC3, CHR 0xA1] @ ''ch g'' @ [CHR 0xC3, CHR 0xB3] @ ''i d'' @ [CHR 0xE1, CHR 0xBB, CHR 0x8B] @ ''ch v'' @ [CHR 0xE1, CHR 0xBB, CHR 0xA5]),
        required = True, min_val = None, options = None,
        minItems = Some 1, maxItems = None,
        itemSchema = Some [
          (''id'', \<lparr>type = KText, label = Some (''M'' @ [CHR 0xC3, CHR 0xA3] @ '' g'' @ [CHR 0xC3, CHR 0xB3] @ ''i (ID)''),
              required = True, min_val = None, options = None\<rparr>),
          (''subservice_title'', \<lparr>type = KText, label = Some (''T'' @ [CHR 0xC3, CHR 0xAA] @ ''n g'' @ [CHR 0xC3, CHR 0xB3] @ ''i''),
              required = True, min_val = None, options = None\<rparr>),
          (''price'', \<lparr>type = KNumber, label = Some (''Gi'' @ [CHR 0xC3, CHR 0xA1] @ '' (VN'' @ [CHR 0xC4, CHR 0x90] @ '')''),
              required = True, min_val = Some 0, options = None\<rparr>)]\<rparr>)]\<rparr>"

definition task_tab_schema :: block_schema where
  "task_tab_schema = \<lparr>btype = ''task_tab'', fields' = [
    (''title'',
      \<lparr>type = KText, label = Some (''Ti'' @ [CHR 0xC3, CHR 0xAA] @ ''u '' @ [CHR 0xC4, CHR 0x91, CHR 0xE1, CHR 0xBB, CHR 0x81] @ '' chung''),
        required = True, min_val = None, options = None,
        minItems = None, maxItems = None,
        itemSchema = None\<rparr>),
    (''tabs'',
      \<lparr>type = KArray, label = Some (''Danh s'' @ [CHR 0xC3, CHR 0xA1] @ ''ch tabs''),
        required = True, min_val = None, options = None,
        minItems = Some 1, maxItems = None,
        itemSchema = Some [
          (''tab_title'', \<lparr>type = KText, label = Some (''T'' @ [CHR 0xC3, CHR 0xAA] @ ''n tab''),
              required = True, min_val = None, options = None\<rparr>),
          (''description'', \<lparr>type = KRichtext, label = Some (''N'' @ [CHR 0xE1, CHR 0xBB, CHR 0x99] @ ''i dung''),
              required = True, min_val = None, options = None\<rparr>),
          (''image_url'', \<lparr>type = KImage, label = Some (''H'' @ [CHR 0xC3, CHR 0xAC] @ ''nh '' @ [CHR 0xE1, CHR 0xBA, CHR 0xA3] @ ''nh''),
              required = True, min_val = None, options = None\<rparr>)]\<rparr>)]\<rparr>"

definition process_schema :: block_schema where
  "process_schema = \<lparr>btype = ''process'', fields' = [
    (''title'',
      \<lparr>type = KText, label = Some (''Ti'' @ [CHR 0xC3, CHR 0xAA] @ ''u '' @ [CHR 0xC4, CHR 0x91, CHR 0xE1, CHR 0xBB, CHR 0x81] @ '' quy tr'' @ [CHR 0xC3, CHR 0xAC] @ ''nh''),
        required = True, min_val = None, options = None,
        minItems = None, maxItems = None,
        itemSchema = None\<rparr>),
    (''steps'',
      \<lparr>type = KArray, label = Some (''Danh s'' @ [CHR 0xC3, CHR 0xA1] @ ''ch b'' @ [CHR 0xC6, CHR 0xB0, CHR 0xE1, CHR 0xBB, CHR 0x9B] @ ''c''),
        required = True, min_val = None, options = None,
        minItems = Some 1, maxItems = None,
        itemSchema = Some [
          (''number'', \<lparr>type = KNumber, label = Some (''S'' @ [CHR 0xE1, CHR 0xBB, CHR 0x91] @ '' th'' @ [CHR 0xE1, CHR 0xBB, CHR 0xA9] @ '' t'' @ [CHR 0xE1, CHR 0xBB, CHR 0xB1]),
              required = True, min_val = Some 1, options = None\<rparr>),
          (''step_title'', \<lparr>type = KText, label = Some (''T'' @ [CHR 0xC3, CHR 0xAA] @ ''n b'' @ [CHR 0xC6, CHR 0xB0, CHR 0xE1, CHR 0xBB, CHR 0x9B] @ ''c''),
              required = True, min_val = None, options = None\<rparr>),
          (''description'', \<lparr>type = KTextarea, label = Some (''M'' @ [CHR 0xC3, CHR 0xB4] @ '' t'' @ [CHR 0xE1, CHR 0xBA, CHR 0xA3]),
              required = True, min_val = None, options = None\<rparr>),
          (''image_url'', \<lparr>type = KImage, label = Some (''H'' @ [CHR 0xC3, CHR 0xAC] @ ''nh '' @ [CHR 0xE1, CHR 0xBA, CHR 0xA3] @ ''nh''),
              required = True, min_val = None, options = None\<rparr>)]\<rparr>)]\<rparr>"

definition booking_schema :: block_schema where
  "booking_schema = \<lparr>btype = ''booking'', fields' = [
    (''title'',
      \<lparr>type = KText, label = Some (''Ti'' @ [CHR 0xC3, CHR 0xAA] @ ''u '' @ [CHR 0xC4, CHR 0x91, CHR 0xE1, CHR 0xBB, CHR 0x81]),
        required = True, min_val = None, options = None,
        minItems = None, maxItems = None,
        itemSchema = None\<rparr>),
    (''image_url'',
      \<lparr>type = KImage, label = Some (''H'' @ [CHR 0xC3, CHR 0xAC] @ ''nh n'' @ [CHR 0xE1, CHR 0xBB, CHR 0x81] @ ''n/'' @ [CHR 0xE1, CHR 0xBA, CHR 0xA3] @ ''nh''),
        required = True, min_val = None, options = None,
        minItems = None, maxItems = None,
        itemSchema = None\<rparr>),
    (''button_text'',
      \<lparr>type = KText, label = Some (''Text n'' @ [CHR 0xC3, CHR 0xBA] @ ''t''),
        required = False, min_val = None, options = None,
        minItems = None, maxItems = None,
        itemSchema = None\<rparr>),
    (''form_schema'',
      \<lparr>type = KArray, label = Some (''C'' @ [CHR 0xE1, CHR 0xBA, CHR 0xA5] @ ''u h'' @ [CHR 0xC3, CHR 0xAC] @ ''nh fields c'' @ [CHR 0xE1, CHR 0xBB, CHR 0xA7] @ ''a Form''),
        required = True, min_val = None, options = None,
        minItems = None, maxItems = None,
        itemSchema = Some [
          (''field_name'', \<lparr>type = KText, label = Some (''T'' @ [CHR 0xC3, CHR 0xAA] @ ''n field (DB)''),
              required = True, min_val = None, options = None\<rparr>),
          (''field_type'', \<lparr>type = KSelect, label = Some (''Lo'' @ [CHR 0xE1, CHR 0xBA, CHR 0xA1] @ ''i field''),
              required = True, min_val = None, options = Some ([''text'', ''select'', ''date'', ''time''])\<rparr>),
          (''label'', \<lparr>type = KText, label = Some (''Label hi'' @ [CHR 0xE1, CHR 0xBB, CHR 0x83] @ ''n th'' @ [CHR 0xE1, CHR 0xBB, CHR 0x8B]),
              required = True, min_val = None, options = None\<rparr>),
          (''required'', \<lparr>type = KBoolean, label = Some (''B'' @ [CHR 0xE1, CHR 0xBA, CHR 0xAF] @ ''t bu'' @ [CHR 0xE1, CHR 0xBB, CHR 0x99] @ ''c?''),
              required = False, min_val = None, options = None\<rparr>),
          (''options'', \<lparr>type = KArray, label = Some (''Options (cho select)''),
              required = False, min_val = None, options = None\<rparr>)]\<rparr>)]\<rparr>"

text \<open>\<open>BLOCK_SCHEMAS[blockType]\<close>. The catalog is an object literal, so a key that is not
  one of its six own keys is looked up on \<open>Object.prototype\<close>: the names below give a
  built-in function (or the prototype itself), which is truthy and has no \<open>fields\<close>;
  every other key gives \<open>undefined\<close>.\<close>

definition object_prototype_keys :: "string list" where
  "object_prototype_keys =
    [''constructor'', ''__defineGetter__'', ''__defineSetter__'', ''hasOwnProperty'',
     ''__lookupGetter__'', ''__lookupSetter__'', ''isPrototypeOf'', ''propertyIsEnumerable'',
     ''toString'', ''valueOf'', ''__proto__'', ''toLocaleString'']"

definition BLOCK_SCHEMAS :: "(string \<times> block_schema) list" where
  "BLOCK_SCHEMAS =
    [(''intro'', intro_schema), (''definition'', definition_schema),
     (''pricing'', pricing_schema), (''task_tab'', task_tab_schema),
     (''process'', process_schema), (''booking'', booking_schema)]"

datatype schema_lookup = Own block_schema | Inherited | Undefined

definition lookup_schema :: "string \<Rightarrow> schema_lookup" where
  "lookup_schema blockType =
    (case map_of BLOCK_SCHEMAS blockType of
       Some schema \<Rightarrow> Own schema
     | None \<Rightarrow> if blockType \<in> set object_prototype_keys then Inherited else Undefined)"

section \<open>validateBlock\<close>

text \<open>Each template literal pushed onto \<open>errors\<close> (the accumulator \<open>errs\<close> below) is one constructor, carrying the values
  the template interpolates; \<open>message\<close> below renders it.\<close>

datatype verror =
    UnknownBlockType string
  | FieldRequired string string
  | NotArray string
  | MinItems string nat
  | MaxItems string nat
  | SubRequired string nat string "string option"
  | SubMin string nat string int

record validation_result =
  valid :: bool
  errors :: "verror list"

text \<open>The value is empty when it is \<open>undefined\<close>, \<open>null\<close> or the empty string.\<close>

definition is_empty :: "jsval \<Rightarrow> bool" where
  "is_empty v = (v = JUndefined \<or> v = JNull \<or> v = JStr [])"

text \<open>The body of the inner \<open>forEach\<close> over \<open>itemSchema\<close> after \<open>subValue\<close> is read: the
  messages it pushes for one sub-field of the item at \<open>index\<close>.\<close>

definition sub_check :: "string \<Rightarrow> nat \<Rightarrow> string \<Rightarrow> sub_rule \<Rightarrow> jsval \<Rightarrow> verror list" where
  "sub_check fieldName index subFieldName subFieldConfig subValue =
    (if required subFieldConfig \<and>
        (is_empty subValue \<and> subValue \<noteq> JNum (Num 0) \<and> subValue \<noteq> JBool False)
     then [SubRequired fieldName index subFieldName (label subFieldConfig)] else []) @
    (if type subFieldConfig = KNumber then
       (case min_val subFieldConfig of
          Some m \<Rightarrow> if is_number subValue \<and> js_less subValue m
                    then [SubMin fieldName index subFieldName m] else []
        | None \<Rightarrow> [])
     else [])"

text \<open>\<open>Object.entries(itemSchema).forEach\<close> for one item: \<open>item[subFieldName]\<close> throws
  when the item is \<open>null\<close> or \<open>undefined\<close>.\<close>

fun each_sub :: "string \<Rightarrow> nat \<Rightarrow> jsval \<Rightarrow> (string \<times> sub_rule) list \<Rightarrow> verror list
    \<Rightarrow> exn + verror list" where
  "each_sub fieldName index item [] errs = Inr errs"
| "each_sub fieldName index item ((subFieldName, subFieldConfig) # rest) errs =
    (case js_get item subFieldName of
       Inl e \<Rightarrow> Inl e
     | Inr subValue \<Rightarrow>
         each_sub fieldName index item rest
           (errs @ sub_check fieldName index subFieldName subFieldConfig subValue))"

text \<open>\<open>value.forEach((item, index) => ...)\<close>, from \<open>index\<close> on.\<close>

fun each_item :: "string \<Rightarrow> (string \<times> sub_rule) list \<Rightarrow> nat \<Rightarrow> jsval list \<Rightarrow> verror list
    \<Rightarrow> exn + verror list" where
  "each_item fieldName isch index [] errs = Inr errs"
| "each_item fieldName isch index (item # items) errs =
    (case each_sub fieldName index item isch errs of
       Inl e \<Rightarrow> Inl e
     | Inr errs' \<Rightarrow> each_item fieldName isch (Suc index) items errs')"

text \<open>The cardinality messages: a bound of \<open>0\<close> is falsy and is skipped, like an absent one.\<close>

definition min_items_check :: "string \<Rightarrow> field_rule \<Rightarrow> jsval list \<Rightarrow> verror list" where
  "min_items_check fieldName fieldConfig xs =
    (case minItems fieldConfig of
       Some m \<Rightarrow> if m \<noteq> 0 \<and> length xs < m then [MinItems fieldName m] else []
     | None \<Rightarrow> [])"

definition max_items_check :: "string \<Rightarrow> field_rule \<Rightarrow> jsval list \<Rightarrow> verror list" where
  "max_items_check fieldName fieldConfig xs =
    (case maxItems fieldConfig of
       Some m \<Rightarrow> if m \<noteq> 0 \<and> length xs > m then [MaxItems fieldName m] else []
     | None \<Rightarrow> [])"

text \<open>The body of the outer \<open>forEach\<close> over \<open>schema.fields\<close> after \<open>value\<close> is read.\<close>

definition check_value :: "string \<Rightarrow> field_rule \<Rightarrow> jsval \<Rightarrow> verror list \<Rightarrow> exn + verror list" where
  "check_value fieldName fieldConfig val errs =
    (if required fieldConfig \<and>
        (is_empty val \<and> val \<noteq> JNum (Num 0) \<and> val \<noteq> JBool False)
     then Inr (errs @ [FieldRequired fieldName
            (case label fieldConfig of
               Some l \<Rightarrow> if l = [] then fieldName else l
             | None \<Rightarrow> fieldName)])
     else if type fieldConfig = KArray then
       (if truthy val \<and> \<not> isArray val then Inr (errs @ [NotArray fieldName])
        else
          (case val of
             JArr xs \<Rightarrow>
               (let errs1 = errs @ min_items_check fieldName fieldConfig xs;
                    errs2 = errs1 @ max_items_check fieldName fieldConfig xs
                in case itemSchema fieldConfig of
                     Some isch \<Rightarrow> each_item fieldName isch 0 xs errs2
                   | None \<Rightarrow> Inr errs2)
           | _ \<Rightarrow> Inr errs))
     else Inr errs)"

text \<open>\<open>Object.entries(schema.fields).forEach\<close>: \<open>blockData[fieldName]\<close> throws when
  \<open>blockData\<close> is \<open>null\<close> or \<open>undefined\<close>.\<close>

fun each_field :: "(string \<times> field_rule) list \<Rightarrow> jsval \<Rightarrow> verror list \<Rightarrow> exn + verror list" where
  "each_field [] blockData errs = Inr errs"
| "each_field ((fieldName, fieldConfig) # rest) blockData errs =
    (case js_get blockData fieldName of
       Inl e \<Rightarrow> Inl e
     | Inr val \<Rightarrow>
         (case check_value fieldName fieldConfig val errs of
            Inl e \<Rightarrow> Inl e
          | Inr errs' \<Rightarrow> each_field rest blockData errs'))"

text \<open>\<open>validateBlock(blockType, blockData)\<close>. An inherited value of the lookup is truthy,
  so the unknown-type branch is not taken, and \<open>Object.entries(schema.fields)\<close> throws
  on its \<open>undefined\<close> \<open>fields\<close>. The lookup and the template literal convert a block
  type that is not a string to one; \<open>blockType\<close> is that string.\<close>

definition validateBlock :: "string \<Rightarrow> jsval \<Rightarrow> exn + validation_result" where
  "validateBlock blockType blockData =
    (case lookup_schema blockType of
       Undefined \<Rightarrow> Inr \<lparr>valid = False, errors = [UnknownBlockType blockType]\<rparr>
     | Inherited \<Rightarrow> Inl TypeError
     | Own schema \<Rightarrow>
         (case each_field (fields' schema) blockData [] of
            Inl e \<Rightarrow> Inl e
          | Inr errs \<Rightarrow> Inr \<lparr>valid = (length errs = 0), errors = errs\<rparr>))"

text \<open>The text of each message. \<open>${index}\<close> and the bounds are written in decimal;
  an absent sub-field label is written \<open>undefined\<close>. The fixed parts are the bytes of the
  source's Vietnamese text.\<close>

fun digits :: "nat \<Rightarrow> string" where
  "digits n =
    (if n < 10 then [''0123456789'' ! n]
     else digits (n div 10) @ [''0123456789'' ! (n mod 10)])"

declare digits.simps [simp del]

definition show_int :: "int \<Rightarrow> string" where
  "show_int m = (if m < 0 then ''-'' @ digits (nat (- m)) else digits (nat m))"

definition quoted :: "string \<Rightarrow> string" where
  "quoted s = [CHR 0x22] @ s @ [CHR 0x22]"

fun message :: "verror \<Rightarrow> string" where
  "message (UnknownBlockType blockType) =
    ''Block type '' @ quoted blockType @ ('' kh'' @ [CHR 0xC3, CHR 0xB4] @ ''ng t'' @ [CHR 0xE1, CHR 0xBB, CHR 0x93] @ ''n t'' @ [CHR 0xE1, CHR 0xBA, CHR 0xA1] @ ''i'')"
| "message (FieldRequired fieldName l) =
    ''Field '' @ quoted fieldName @ '' ('' @ l @ '')'' @ ('' l'' @ [CHR 0xC3, CHR 0xA0] @ '' b'' @ [CHR 0xE1, CHR 0xBA, CHR 0xAF] @ ''t bu'' @ [CHR 0xE1, CHR 0xBB, CHR 0x99] @ ''c'')"
| "message (NotArray fieldName) =
    ''Field '' @ quoted fieldName @ ('' ph'' @ [CHR 0xE1, CHR 0xBA, CHR 0xA3] @ ''i l'' @ [CHR 0xC3, CHR 0xA0] @ '' danh s'' @ [CHR 0xC3, CHR 0xA1] @ ''ch (array)'')"
| "message (MinItems fieldName m) =
    ''Field '' @ quoted fieldName @ ('' c'' @ [CHR 0xE1, CHR 0xBA, CHR 0xA7] @ ''n t'' @ [CHR 0xE1, CHR 0xBB, CHR 0x91] @ ''i thi'' @ [CHR 0xE1, CHR 0xBB, CHR 0x83] @ ''u '') @ digits m @ ('' ph'' @ [CHR 0xE1, CHR 0xBA, CHR 0xA7] @ ''n t'' @ [CHR 0xE1, CHR 0xBB, CHR 0xAD])"
| "message (MaxItems fieldName m) =
    ''Field '' @ quoted fieldName @ ('' ch'' @ [CHR 0xE1, CHR 0xBB, CHR 0x89] @ '' '' @ [CHR 0xC4, CHR 0x91, CHR 0xC6, CHR 0xB0, CHR 0xE1, CHR 0xBB, CHR 0xA3] @ ''c t'' @ [CHR 0xE1, CHR 0xBB, CHR 0x91] @ ''i '' @ [CHR 0xC4, CHR 0x91] @ ''a '') @ digits m @ ('' ph'' @ [CHR 0xE1, CHR 0xBA, CHR 0xA7] @ ''n t'' @ [CHR 0xE1, CHR 0xBB, CHR 0xAD])"
| "message (SubRequired fieldName index subFieldName l) =
    fieldName @ ''['' @ digits index @ ''].'' @ subFieldName @
    '' ('' @ (case l of Some t \<Rightarrow> t | None \<Rightarrow> ''undefined'') @ '')'' @ ('' l'' @ [CHR 0xC3, CHR 0xA0] @ '' b'' @ [CHR 0xE1, CHR 0xBA, CHR 0xAF] @ ''t bu'' @ [CHR 0xE1, CHR 0xBB, CHR 0x99] @ ''c'')"
| "message (SubMin fieldName index subFieldName m) =
    fieldName @ ''['' @ digits index @ ''].'' @ subFieldName @ ('' ph'' @ [CHR 0xE1, CHR 0xBA, CHR 0xA3] @ ''i l'' @ [CHR 0xE1, CHR 0xBB, CHR 0x9B] @ ''n h'' @ [CHR 0xC6, CHR 0xA1] @ ''n ho'' @ [CHR 0xE1, CHR 0xBA, CHR 0xB7] @ ''c b'' @ [CHR 0xE1, CHR 0xBA, CHR 0xB1] @ ''ng '') @ show_int m"

text \<open>The top-level field an error message is about.\<close>

fun error_field :: "verror \<Rightarrow> string option" where
  "error_field (UnknownBlockType blockType) = None"
| "error_field (FieldRequired fieldName l) = Some fieldName"
| "error_field (NotArray fieldName) = Some fieldName"
| "error_field (MinItems fieldName m) = Some fieldName"
| "error_field (MaxItems fieldName m) = Some fieldName"
| "error_field (SubRequired fieldName index subFieldName l) = Some fieldName"
| "error_field (SubMin fieldName index subFieldName m) = Some fieldName"

section \<open>validateBookingRequest (bookingValidator.js)\<close>

text \<open>The numbers of this function are the results of \<open>parseInt\<close> and of arithmetic on
  them: an integer held by a double, \<open>NaN\<close>, or an infinity.\<close>

datatype jsint = Fin int | NotANumber | PosInf | NegInf

text \<open>The double nearest to an integer (ties to the even significand), which is what
  an arithmetic operation of the source returns for operands whose exact result is that
  integer. An integer of magnitude up to \<open>2\<^sup>5\<^sup>3\<close> is a double itself; a larger one keeps its
  53 leading bits; from \<open>2\<^sup>1\<^sup>0\<^sup>2\<^sup>4\<close> on the result is an infinity.\<close>

fun bitlen :: "nat \<Rightarrow> nat" where
  "bitlen n = (if n = 0 then 0 else Suc (bitlen (n div 2)))"

declare bitlen.simps [simp del]

definition round_double :: "int \<Rightarrow> jsint" where
  "round_double n =
    (let m = nat \<bar>n\<bar>
     in if m \<le> 2 ^ 53 then Fin n
        else
          (let q = 2 ^ (bitlen m - 53);
               k = m div q;
               r = m mod q;
               k' = (if 2 * r > q \<or> (2 * r = q \<and> odd k) then k + 1 else k);
               v = int (k' * q)
           in if v \<ge> 2 ^ 1024 then (if n < 0 then NegInf else PosInf)
              else Fin (if n < 0 then - v else v)))"

text \<open>\<open>x * k\<close> for a positive integer constant \<open>k\<close>, and \<open>t + x\<close> for a finite \<open>t\<close>.\<close>

fun js_times :: "jsint \<Rightarrow> int \<Rightarrow> jsint" where
  "js_times (Fin a) k = round_double (a * k)"
| "js_times x k = x"

fun js_plus :: "int \<Rightarrow> jsint \<Rightarrow> jsint" where
  "js_plus t (Fin a) = round_double (t + a)"
| "js_plus t x = x"

text \<open>\<open>a < b\<close> and \<open>a >= b\<close> on numbers: both are false when an operand is \<open>NaN\<close>.\<close>

fun jsint_less :: "jsint \<Rightarrow> jsint \<Rightarrow> bool" where
  "jsint_less NotANumber b = False"
| "jsint_less a NotANumber = False"
| "jsint_less (Fin a) (Fin b) = (a < b)"
| "jsint_less PosInf b = False"
| "jsint_less a NegInf = False"
| "jsint_less a PosInf = True"
| "jsint_less NegInf b = True"

fun jsint_ge :: "jsint \<Rightarrow> jsint \<Rightarrow> bool" where
  "jsint_ge NotANumber b = False"
| "jsint_ge a NotANumber = False"
| "jsint_ge a b = (\<not> jsint_less a b)"

text \<open>The time value of \<open>new Date(x)\<close> for a number \<open>x\<close>: \<open>None\<close> (an invalid date) when
  \<open>x\<close> is not finite or lies outside the range of \<open>Date\<close>, 8.64e15 milliseconds on both
  sides of the epoch. Two dates compare by their time values, and a comparison with an
  invalid date is false.\<close>

fun new_Date :: "jsint \<Rightarrow> int option" where
  "new_Date (Fin t) = (if \<bar>t\<bar> \<le> 8640000000000000 then Some t else None)"
| "new_Date x = None"

fun date_less :: "int option \<Rightarrow> int option \<Rightarrow> bool" where
  "date_less (Some a) (Some b) = (a < b)"
| "date_less a b = False"

text \<open>\<open>parseInt(process.env.NAME || dflt)\<close>: an unset or empty variable gives the default.
  \<open>parseInt\<close> on a string is the runtime's, a parameter.\<close>

definition env_int ::
  "(string \<Rightarrow> jsint) \<Rightarrow> (string \<Rightarrow> string option) \<Rightarrow> string \<Rightarrow> int \<Rightarrow> jsint" where
  "env_int parse_int env name dflt =
    (case env name of
       None \<Rightarrow> Fin dflt
     | Some s \<Rightarrow> if s = [] then Fin dflt else parse_int s)"

definition minBookingTime ::
  "(string \<Rightarrow> jsint) \<Rightarrow> (string \<Rightarrow> string option) \<Rightarrow> int \<Rightarrow> int option" where
  "minBookingTime parse_int env now =
    new_Date (js_plus now (js_times (env_int parse_int env ''BUFFER_MINUTES'' 30) 60000))"

definition maxBookingTime ::
  "(string \<Rightarrow> jsint) \<Rightarrow> (string \<Rightarrow> string option) \<Rightarrow> int \<Rightarrow> int option" where
  "maxBookingTime parse_int env now =
    new_Date (js_plus now
      (js_times (js_times (js_times (js_times
         (env_int parse_int env ''BOOKING_ADVANCE_DAYS'' 7) 24) 60) 60) 1000))"

datatype reply =
    MissingDateTime
  | InvalidTimeFormat
  | TooSoon jsint
  | TooFar jsint
  | OutsideHours jsint jsint
  | SystemError

datatype response = Respond nat reply | Next string

text \<open>A value inside a template literal: a string stands for itself, any other value
  is converted by the runtime's \<open>ToString\<close>, a parameter; \<open>None\<close> when the conversion
  throws (an object whose \<open>toString\<close> and \<open>valueOf\<close> give no primitive).\<close>

fun template_text :: "(jsval \<Rightarrow> string option) \<Rightarrow> jsval \<Rightarrow> string option" where
  "template_text to_string (JStr s) = Some s"
| "template_text to_string v = to_string v"

text \<open>The composed \<open>timeString\<close>, \<open>`${booking_date}T${booking_time}:00+07:00`\<close>.\<close>

definition timeString :: "(jsval \<Rightarrow> string option) \<Rightarrow> jsval \<Rightarrow> string option" where
  "timeString to_string booking_data =
    (case template_text to_string (js_prop booking_data ''booking_date'') of
       None \<Rightarrow> None
     | Some d \<Rightarrow>
        (case template_text to_string (js_prop booking_data ''booking_time'') of
           None \<Rightarrow> None
         | Some t \<Rightarrow> Some (d @ ''T'' @ t @ '':00+07:00'')))"

text \<open>\<open>hourString\<close>, the first component of \<open>booking_time.split(':')\<close>: the text before
  the first colon.\<close>

definition hourString :: "string \<Rightarrow> string" where
  "hourString booking_time = takeWhile (\<lambda>c. c \<noteq> CHR '':'') booking_time"

text \<open>\<open>validateBookingRequest(req, res, next)\<close> as a function of \<open>req.body\<close>, the
  environment and the clock \<open>now\<close> (the time value of \<open>new Date()\<close>). The runtime's
  \<open>ToString\<close>, \<open>parseInt\<close> and the time value of \<open>new Date(timeString)\<close> (\<open>date_parse\<close>,
  \<open>None\<close> for an invalid date) are parameters. The result is the response sent, or
  \<open>Next\<close> with the \<open>start_time\<close> stored in the request. An exception anywhere is caught
  and answered with status 500: reading \<open>booking_data\<close> from a missing body, a
  \<open>ToString\<close> that throws, or calling \<open>split\<close> on a \<open>booking_time\<close> that is not a
  string.\<close>

definition validateBookingRequest ::
  "(jsval \<Rightarrow> string option) \<Rightarrow> (string \<Rightarrow> int option) \<Rightarrow> (string \<Rightarrow> jsint) \<Rightarrow>
    (string \<Rightarrow> string option) \<Rightarrow> int \<Rightarrow> jsval \<Rightarrow> response" where
  "validateBookingRequest to_string date_parse parse_int env now body =
    (case js_get body ''booking_data'' of
       Inl e \<Rightarrow> Respond 500 SystemError
     | Inr booking_data \<Rightarrow>
        if \<not> truthy booking_data \<or> \<not> truthy (js_prop booking_data ''booking_date'')
            \<or> \<not> truthy (js_prop booking_data ''booking_time'')
        then Respond 400 MissingDateTime
        else
          (case timeString to_string booking_data of
             None \<Rightarrow> Respond 500 SystemError
           | Some ts \<Rightarrow>
              (let bookingDate = date_parse ts
               in if bookingDate = None then Respond 400 InvalidTimeFormat
                  else
                    (let BUFFER_MINUTES = env_int parse_int env ''BUFFER_MINUTES'' 30;
                         BOOKING_ADVANCE_DAYS = env_int parse_int env ''BOOKING_ADVANCE_DAYS'' 7;
                         WORK_START_HOUR = env_int parse_int env ''WORK_START_HOUR'' 7;
                         WORK_END_HOUR = env_int parse_int env ''WORK_END_HOUR'' 19
                     in if date_less bookingDate (minBookingTime parse_int env now)
                        then Respond 400 (TooSoon BUFFER_MINUTES)
                        else if date_less (maxBookingTime parse_int env now) bookingDate
                        then Respond 400 (TooFar BOOKING_ADVANCE_DAYS)
                        else
                          (case js_prop booking_data ''booking_time'' of
                             JStr booking_time \<Rightarrow>
                               (let hour = parse_int (hourString booking_time)
                                in if jsint_less hour WORK_START_HOUR \<or>
                                      jsint_ge hour WORK_END_HOUR
                                   then Respond 400
                                     (OutsideHours WORK_START_HOUR WORK_END_HOUR)
                                   else Next ts)
                           | _ \<Rightarrow> Respond 500 SystemError)))))"

section \<open>Closed forms of the validation loops\<close>

text \<open>The messages the loops push when nothing throws, and the condition under which a
  property read throws. The lemmas of the next section show that the loops compute them.\<close>

definition item_errors :: "string \<Rightarrow> (string \<times> sub_rule) list \<Rightarrow> nat \<Rightarrow> jsval \<Rightarrow> verror list" where
  "item_errors fieldName isch index item =
    concat (map (\<lambda>(subFieldName, subFieldConfig).
      sub_check fieldName index subFieldName subFieldConfig (js_prop item subFieldName)) isch)"

fun items_errors :: "string \<Rightarrow> (string \<times> sub_rule) list \<Rightarrow> nat \<Rightarrow> jsval list \<Rightarrow> verror list" where
  "items_errors fieldName isch index [] = []"
| "items_errors fieldName isch index (item # items) =
    item_errors fieldName isch index item @ items_errors fieldName isch (Suc index) items"

definition items_throw :: "(string \<times> sub_rule) list \<Rightarrow> jsval list \<Rightarrow> bool" where
  "items_throw isch xs = (isch \<noteq> [] \<and> list_ex nullish xs)"

definition field_throws :: "field_rule \<Rightarrow> jsval \<Rightarrow> bool" where
  "field_throws fieldConfig val =
    (type fieldConfig = KArray \<and>
     (case val of
        JArr xs \<Rightarrow> (case itemSchema fieldConfig of Some isch \<Rightarrow> items_throw isch xs | None \<Rightarrow> False)
      | _ \<Rightarrow> False))"

definition required_label :: "string \<Rightarrow> field_rule \<Rightarrow> string" where
  "required_label fieldName fieldConfig =
    (case label fieldConfig of Some l \<Rightarrow> if l = [] then fieldName else l | None \<Rightarrow> fieldName)"

definition field_errors :: "string \<Rightarrow> field_rule \<Rightarrow> jsval \<Rightarrow> verror list" where
  "field_errors fieldName fieldConfig val =
    (if required fieldConfig \<and> is_empty val
     then [FieldRequired fieldName (required_label fieldName fieldConfig)]
     else if type fieldConfig = KArray then
       (if truthy val \<and> \<not> isArray val then [NotArray fieldName]
        else
          (case val of
             JArr xs \<Rightarrow>
               min_items_check fieldName fieldConfig xs @ max_items_check fieldName fieldConfig xs @
               (case itemSchema fieldConfig of
                  Some isch \<Rightarrow> items_errors fieldName isch 0 xs
                | None \<Rightarrow> [])
           | _ \<Rightarrow> []))
     else [])"

definition fields_throw :: "(string \<times> field_rule) list \<Rightarrow> jsval \<Rightarrow> bool" where
  "fields_throw fs blockData =
    (fs \<noteq> [] \<and> nullish blockData \<or>
     list_ex (\<lambda>(fieldName, fieldConfig). field_throws fieldConfig (js_prop blockData fieldName)) fs)"

definition fields_errors :: "(string \<times> field_rule) list \<Rightarrow> jsval \<Rightarrow> verror list" where
  "fields_errors fs blockData =
    concat (map (\<lambda>(fieldName, fieldConfig).
      field_errors fieldName fieldConfig (js_prop blockData fieldName)) fs)"

text \<open>What the proofs use of the catalog's shape: every schema has fields with distinct
  names, at most one of them an array; the only cardinality bound written is
  \<open>minItems: 1\<close>.\<close>

definition is_array_field :: "string \<times> field_rule \<Rightarrow> bool" where
  "is_array_field p = (type (snd p) = KArray)"

definition plain_bounds :: "string \<times> field_rule \<Rightarrow> bool" where
  "plain_bounds p =
    ((minItems (snd p) = None \<or> minItems (snd p) = Some 1) \<and> maxItems (snd p) = None)"

definition well_formed_schema :: "block_schema \<Rightarrow> bool" where
  "well_formed_schema s =
    (fields' s \<noteq> [] \<and> distinct (map fst (fields' s)) \<and>
     length (filter is_array_field (fields' s)) \<le> 1 \<and>
     list_all plain_bounds (fields' s))"

section \<open>The loops compute their closed forms\<close>

lemma each_sub_closed:
  "each_sub f i item isch errs =
    (if isch \<noteq> [] \<and> nullish item then Inl TypeError
     else Inr (errs @ item_errors f isch i item))"
  by (induction isch arbitrary: errs) (auto simp: item_errors_def js_get_def)

lemma each_item_closed:
  "each_item f isch i xs errs =
    (if items_throw isch xs then Inl TypeError else Inr (errs @ items_errors f isch i xs))"
  by (induction xs arbitrary: i errs) (auto simp: each_sub_closed items_throw_def)

lemma is_empty_simps [simp]:
  "is_empty JUndefined" "is_empty JNull" "is_empty (JStr s) = (s = [])"
  "\<not> is_empty (JBool b)" "\<not> is_empty (JNum n)" "\<not> is_empty (JArr xs)" "\<not> is_empty (JObj kvs)"
  by (simp_all add: is_empty_def)

lemma check_value_closed:
  "check_value f r v errs =
    (if field_throws r v then Inl TypeError else Inr (errs @ field_errors f r v))"
  by (cases v)
     (auto simp: check_value_def field_throws_def field_errors_def required_label_def
        each_item_closed Let_def split: option.splits)

lemma each_field_closed:
  "each_field fs d errs =
    (if fields_throw fs d then Inl TypeError else Inr (errs @ fields_errors fs d))"
  by (induction fs arbitrary: errs)
     (auto simp: fields_throw_def fields_errors_def js_get_def check_value_closed)

lemma validateBlock_closed:
  "validateBlock bt d =
    (case lookup_schema bt of
       Undefined \<Rightarrow> Inr \<lparr>valid = False, errors = [UnknownBlockType bt]\<rparr>
     | Inherited \<Rightarrow> Inl TypeError
     | Own s \<Rightarrow>
         if fields_throw (fields' s) d then Inl TypeError
         else Inr \<lparr>valid = (fields_errors (fields' s) d = []),
                    errors = fields_errors (fields' s) d\<rparr>)"
  by (simp add: validateBlock_def each_field_closed split: schema_lookup.splits)

lemma in_item_errors:
  "e \<in> set (item_errors f isch i item) \<longleftrightarrow>
    (\<exists>sf sr. (sf, sr) \<in> set isch \<and> e \<in> set (sub_check f i sf sr (js_prop item sf)))"
  by (auto simp: item_errors_def)

lemma in_items_errors:
  "e \<in> set (items_errors f isch i0 xs) \<longleftrightarrow>
    (\<exists>j < length xs. e \<in> set (item_errors f isch (i0 + j) (xs ! j)))"
proof (induction xs arbitrary: i0)
  case Nil
  then show ?case by simp
next
  case (Cons x xs)
  show ?case
  proof
    assume "e \<in> set (items_errors f isch i0 (x # xs))"
    then consider "e \<in> set (item_errors f isch i0 x)"
      | "e \<in> set (items_errors f isch (Suc i0) xs)" by auto
    then show "\<exists>j < length (x # xs). e \<in> set (item_errors f isch (i0 + j) ((x # xs) ! j))"
    proof cases
      case 1
      then show ?thesis by (intro exI [of _ 0]) simp
    next
      case 2
      then obtain j where "j < length xs" "e \<in> set (item_errors f isch (Suc i0 + j) (xs ! j))"
        using Cons.IH by blast
      then show ?thesis by (intro exI [of _ "Suc j"]) simp
    qed
  next
    assume "\<exists>j < length (x # xs). e \<in> set (item_errors f isch (i0 + j) ((x # xs) ! j))"
    then obtain j where j: "j < length (x # xs)"
      "e \<in> set (item_errors f isch (i0 + j) ((x # xs) ! j))" by blast
    show "e \<in> set (items_errors f isch i0 (x # xs))"
    proof (cases j)
      case 0
      with j show ?thesis by simp
    next
      case (Suc k)
      with j have "k < length xs" "e \<in> set (item_errors f isch (Suc i0 + k) (xs ! k))" by simp_all
      then have "e \<in> set (items_errors f isch (Suc i0) xs)" using Cons.IH by blast
      then show ?thesis by simp
    qed
  qed
qed

lemma in_fields_errors:
  "e \<in> set (fields_errors fs d) \<longleftrightarrow>
    (\<exists>f r. (f, r) \<in> set fs \<and> e \<in> set (field_errors f r (js_prop d f)))"
  by (auto simp: fields_errors_def)

lemma in_sub_check:
  "e \<in> set (sub_check f i sf sr v) \<longleftrightarrow>
    (e = SubRequired f i sf (label sr) \<and> required sr \<and> is_empty v) \<or>
    (\<exists>m. e = SubMin f i sf m \<and> type sr = KNumber \<and> min_val sr = Some m \<and>
         is_number v \<and> js_less v m)"
proof -
  define A where "A =
    (if required sr \<and> (is_empty v \<and> v \<noteq> JNum (Num 0) \<and> v \<noteq> JBool False)
     then [SubRequired f i sf (label sr)] else [])"
  define B where "B =
    (if type sr = KNumber then
       (case min_val sr of
          Some m \<Rightarrow> if is_number v \<and> js_less v m then [SubMin f i sf m] else []
        | None \<Rightarrow> [])
     else [])"
  have split: "sub_check f i sf sr v = A @ B"
    unfolding sub_check_def A_def B_def ..
  have A: "e \<in> set A \<longleftrightarrow> e = SubRequired f i sf (label sr) \<and> required sr \<and> is_empty v"
    unfolding A_def by (cases v) auto
  have B: "e \<in> set B \<longleftrightarrow>
    (\<exists>m. e = SubMin f i sf m \<and> type sr = KNumber \<and> min_val sr = Some m \<and>
         is_number v \<and> js_less v m)"
    unfolding B_def by (cases "type sr = KNumber"; cases "min_val sr") auto
  show ?thesis
    unfolding split set_append Un_iff A B ..
qed

lemma min_items_check_cases:
  "min_items_check f r xs = [] \<or> (\<exists>m. min_items_check f r xs = [MinItems f m])"
  by (cases "minItems r") (simp_all add: min_items_check_def)

lemma max_items_check_cases:
  "max_items_check f r xs = [] \<or> (\<exists>m. max_items_check f r xs = [MaxItems f m])"
  by (cases "maxItems r") (simp_all add: max_items_check_def)

lemma in_field_errors:
  "e \<in> set (field_errors f r v) \<longleftrightarrow>
    (e = FieldRequired f (required_label f r) \<and> required r \<and> is_empty v) \<or>
    (\<not> (required r \<and> is_empty v) \<and> type r = KArray \<and>
      ((e = NotArray f \<and> truthy v \<and> \<not> isArray v) \<or>
       (\<exists>xs. v = JArr xs \<and>
          (e \<in> set (min_items_check f r xs) \<or> e \<in> set (max_items_check f r xs) \<or>
           (\<exists>isch. itemSchema r = Some isch \<and> e \<in> set (items_errors f isch 0 xs))))))"
proof (cases "required r \<and> is_empty v")
  case True
  then show ?thesis by (auto simp: field_errors_def)
next
  case req: False
  show ?thesis
  proof (cases "type r = KArray")
    case False
    with req show ?thesis by (auto simp: field_errors_def)
  next
    case arr: True
    show ?thesis
    proof (cases "truthy v \<and> \<not> isArray v")
      case True
      with req arr show ?thesis by (cases v) (auto simp: field_errors_def)
    next
      case False
      with req arr show ?thesis
        by (cases v; cases "itemSchema r") (auto simp: field_errors_def)
    qed
  qed
qed

lemma error_field_field_errors:
  assumes "e \<in> set (field_errors f r v)"
  shows "error_field e = Some f"
proof -
  from assms consider "e = FieldRequired f (required_label f r)" | "e = NotArray f"
    | xs where "e \<in> set (min_items_check f r xs)"
    | xs where "e \<in> set (max_items_check f r xs)"
    | xs isch where "e \<in> set (items_errors f isch 0 xs)"
    unfolding in_field_errors by blast
  then show ?thesis
  proof cases
    case 3
    then show ?thesis using min_items_check_cases [of f r xs] by auto
  next
    case 4
    then show ?thesis using max_items_check_cases [of f r xs] by auto
  next
    case 5
    then show ?thesis by (auto simp: in_items_errors in_item_errors in_sub_check)
  qed simp_all
qed

lemma in_items_errors_sub:
  "e \<in> set (items_errors f isch 0 xs) \<longleftrightarrow>
    (\<exists>j sf sr. j < length xs \<and> (sf, sr) \<in> set isch \<and>
       e \<in> set (sub_check f j sf sr (js_prop (xs ! j) sf)))"
  by (auto simp: in_items_errors in_item_errors)

lemma in_min_items_check:
  "e \<in> set (min_items_check f r xs) \<longleftrightarrow>
    (\<exists>m. e = MinItems f m \<and> minItems r = Some m \<and> m \<noteq> 0 \<and> length xs < m)"
  by (cases "minItems r") (auto simp: min_items_check_def)

lemma in_max_items_check:
  "e \<in> set (max_items_check f r xs) \<longleftrightarrow>
    (\<exists>m. e = MaxItems f m \<and> maxItems r = Some m \<and> m \<noteq> 0 \<and> m < length xs)"
  by (cases "maxItems r") (auto simp: max_items_check_def)

lemmas in_field_errors_full =
  in_field_errors [unfolded in_min_items_check in_max_items_check in_items_errors_sub in_sub_check]

lemma FieldRequired_in_field_errors:
  "FieldRequired f l \<in> set (field_errors g r v) \<longleftrightarrow>
    g = f \<and> l = required_label g r \<and> required r \<and> is_empty v"
  unfolding in_field_errors_full by auto

lemma NotArray_in_field_errors:
  "NotArray f \<in> set (field_errors g r v) \<longleftrightarrow>
    g = f \<and> \<not> (required r \<and> is_empty v) \<and> type r = KArray \<and> truthy v \<and> \<not> isArray v"
  unfolding in_field_errors_full by auto



lemma SubRequired_in_field_errors:
  "SubRequired f i sf l \<in> set (field_errors g r v) \<longleftrightarrow>
    g = f \<and> type r = KArray \<and>
    (\<exists>xs isch sr. v = JArr xs \<and> itemSchema r = Some isch \<and> i < length xs \<and>
       (sf, sr) \<in> set isch \<and> l = label sr \<and> required sr \<and> is_empty (js_prop (xs ! i) sf))"
  unfolding in_field_errors_full by auto

lemma SubMin_in_field_errors:
  "SubMin f i sf m \<in> set (field_errors g r v) \<longleftrightarrow>
    g = f \<and> type r = KArray \<and>
    (\<exists>xs isch sr. v = JArr xs \<and> itemSchema r = Some isch \<and> i < length xs \<and>
       (sf, sr) \<in> set isch \<and> type sr = KNumber \<and> min_val sr = Some m \<and>
       is_number (js_prop (xs ! i) sf) \<and> js_less (js_prop (xs ! i) sf) m)"
  unfolding in_field_errors_full by auto

lemma UnknownBlockType_notin_field_errors:
  "UnknownBlockType bt \<notin> set (field_errors g r v)"
  unfolding in_field_errors_full by auto

lemma fields_throw_iff:
  "fields_throw fs d \<longleftrightarrow>
    (fs \<noteq> [] \<and> nullish d) \<or> (\<exists>f r. (f, r) \<in> set fs \<and> field_throws r (js_prop d f))"
  by (auto simp: fields_throw_def list_ex_iff)

lemma field_throws_iff:
  "field_throws r v \<longleftrightarrow>
    type r = KArray \<and>
    (\<exists>xs isch. v = JArr xs \<and> itemSchema r = Some isch \<and> isch \<noteq> [] \<and> (\<exists>x \<in> set xs. nullish x))"
  by (cases v; cases "itemSchema r") (auto simp: field_throws_def items_throw_def list_ex_iff)

section \<open>The catalog\<close>

lemmas schema_defs =
  intro_schema_def definition_schema_def pricing_schema_def task_tab_schema_def
  process_schema_def booking_schema_def

lemma catalog_well_formed: "list_all well_formed_schema (map snd BLOCK_SCHEMAS)"
  by (simp add: BLOCK_SCHEMAS_def well_formed_schema_def is_array_field_def plain_bounds_def
      schema_defs)

lemma lookup_schema_Own:
  assumes "lookup_schema bt = Own s"
  shows "(bt, s) \<in> set BLOCK_SCHEMAS"
  using assms by (auto simp: lookup_schema_def split: option.splits if_splits dest: map_of_SomeD)

lemma own_well_formed:
  assumes "lookup_schema bt = Own s"
  shows "well_formed_schema s"
proof -
  have "s \<in> set (map snd BLOCK_SCHEMAS)"
    using lookup_schema_Own [OF assms] by force
  with catalog_well_formed show ?thesis by (auto simp: list_all_iff)
qed

text \<open>The six own keys are found, and the names of \<open>Object.prototype\<close> are inherited.\<close>

lemma lookup_schema_own_keys:
  "lookup_schema ''intro'' = Own intro_schema"
  "lookup_schema ''definition'' = Own definition_schema"
  "lookup_schema ''pricing'' = Own pricing_schema"
  "lookup_schema ''task_tab'' = Own task_tab_schema"
  "lookup_schema ''process'' = Own process_schema"
  "lookup_schema ''booking'' = Own booking_schema"
  by (simp_all add: lookup_schema_def BLOCK_SCHEMAS_def)

lemma lookup_schema_Inherited:
  "lookup_schema bt = Inherited \<longleftrightarrow> bt \<in> set object_prototype_keys"
  by (auto simp: lookup_schema_def BLOCK_SCHEMAS_def object_prototype_keys_def)

lemma single_array_field:
  assumes "length (filter is_array_field fs) \<le> 1"
    and "(f, r) \<in> set fs" "type r = KArray"
    and "(g, r') \<in> set fs" "type r' = KArray"
  shows "g = f \<and> r' = r"
proof -
  have "(f, r) \<in> set (filter is_array_field fs)" "(g, r') \<in> set (filter is_array_field fs)"
    using assms by (simp_all add: is_array_field_def)
  moreover obtain p where "set (filter is_array_field fs) \<subseteq> {p}"
    using assms(1) by (cases "filter is_array_field fs") auto
  ultimately show ?thesis by auto
qed

section \<open>What validateBlock returns\<close>

lemma validateBlock_Undefined:
  assumes "lookup_schema bt = Undefined"
  shows "validateBlock bt d = Inr \<lparr>valid = False, errors = [UnknownBlockType bt]\<rparr>"
  using assms by (simp add: validateBlock_def)

lemma validateBlock_Own:
  assumes "lookup_schema bt = Own s"
  shows "validateBlock bt d =
    (if fields_throw (fields' s) d then Inl TypeError
     else Inr \<lparr>valid = (fields_errors (fields' s) d = []),
                errors = fields_errors (fields' s) d\<rparr>)"
  using assms by (simp add: validateBlock_closed)

lemma validateBlock_Inr_cases:
  assumes "validateBlock bt d = Inr res"
  obtains (unknown) "lookup_schema bt = Undefined" "res = \<lparr>valid = False, errors = [UnknownBlockType bt]\<rparr>"
  | (own) s where "lookup_schema bt = Own s" "\<not> fields_throw (fields' s) d"
      "errors res = fields_errors (fields' s) d" "valid res = (errors res = [])"
proof (cases "lookup_schema bt")
  case (Own s)
  with assms have "\<not> fields_throw (fields' s) d"
    and "res = \<lparr>valid = (fields_errors (fields' s) d = []), errors = fields_errors (fields' s) d\<rparr>"
    by (auto simp: validateBlock_Own split: if_splits)
  then show ?thesis using Own own by simp
next
  case Inherited
  with assms show ?thesis by (simp add: validateBlock_def)
next
  case Undefined
  with assms show ?thesis using unknown by (auto simp: validateBlock_def)
qed

lemma field_errors_of_field:
  assumes "distinct (map fst fs)" and "(f, r) \<in> set fs"
    and "e \<in> set (fields_errors fs d)" and "error_field e = Some f"
  shows "e \<in> set (field_errors f r (js_prop d f))"
proof -
  from assms(3) obtain g r' where g: "(g, r') \<in> set fs" "e \<in> set (field_errors g r' (js_prop d g))"
    unfolding in_fields_errors by blast
  then have "g = f" using error_field_field_errors assms(4) by fastforce
  moreover from this have "r' = r" using assms(1,2) g(1) by (simp add: eq_key_imp_eq_value)
  ultimately show ?thesis using g(2) by simp
qed

text \<open>An array field of a catalog block whose value is truthy and not a sequence:
  \<open>validateBlock\<close> returns, the type-mismatch error of the field is among the errors,
  and no other error is about the field.\<close>

lemma truthy_non_array_type_mismatch:
  assumes "lookup_schema bt = Own s" and "(f, r) \<in> set (fields' s)" and "type r = KArray"
    and "js_get d f = Inr v" and "truthy v" and "\<not> isArray v"
  shows "\<exists>res. validateBlock bt d = Inr res \<and> NotArray f \<in> set (errors res) \<and>
           (\<forall>e \<in> set (errors res). error_field e = Some f \<longrightarrow> e = NotArray f)"
proof -
  have wf: "well_formed_schema s" using own_well_formed assms(1) .
  have val: "js_prop d f = v" "\<not> nullish d"
    using assms(4) by (auto simp: js_get_def split: if_splits)
  have nonempty: "\<not> is_empty v" using assms(5) by (cases v) auto
  have no_throw: "\<not> fields_throw (fields' s) d"
  proof
    assume "fields_throw (fields' s) d"
    then obtain g r' where g: "(g, r') \<in> set (fields' s)" "field_throws r' (js_prop d g)"
      using val(2) unfolding fields_throw_iff by blast
    then have "type r' = KArray" by (simp add: field_throws_iff)
    then have "g = f" using single_array_field [OF _ assms(2,3) g(1)] wf
      by (simp add: well_formed_schema_def)
    with g(2) val(1) assms(6) show False by (auto simp: field_throws_iff)
  qed
  let ?res = "\<lparr>valid = (fields_errors (fields' s) d = []), errors = fields_errors (fields' s) d\<rparr>"
  have run: "validateBlock bt d = Inr ?res"
    using no_throw assms(1) by (simp add: validateBlock_Own)
  have own: "field_errors f r v = [NotArray f]"
    using assms(3,5,6) nonempty by (simp add: field_errors_def)
  have "NotArray f \<in> set (errors ?res)"
    using assms(2) own val(1) by (force simp: in_fields_errors)
  moreover have "e = NotArray f" if "e \<in> set (errors ?res)" "error_field e = Some f" for e
    using field_errors_of_field [OF _ assms(2), of e d] that wf own val(1)
    by (simp add: well_formed_schema_def)
  ultimately show ?thesis using run by blast
qed

section \<open>The checks of validateBookingRequest\<close>

lemma bitlen_numeral [simp]:
  "bitlen 0 = 0" "bitlen 1 = 1" "bitlen (Suc 0) = 1"
  "bitlen (numeral (Num.Bit0 n)) = Suc (bitlen (numeral n))"
  "bitlen (numeral (Num.Bit1 n)) = Suc (bitlen (numeral n))"
  by (simp_all add: bitlen.simps [of 0] bitlen.simps [of 1] bitlen.simps [of "Suc 0"]
      bitlen.simps [of "numeral (Num.Bit0 n)"] bitlen.simps [of "numeral (Num.Bit1 n)"])

text \<open>Inside the safe range the arithmetic is exact.\<close>

lemma round_double_exact:
  assumes "\<bar>n\<bar> \<le> 2 ^ 53"
  shows "round_double n = Fin n"
proof -
  have "nat \<bar>n\<bar> \<le> 2 ^ 53" using assms by (simp add: nat_le_iff)
  then show ?thesis by (simp add: round_double_def Let_def)
qed

lemma minBookingTime_exact:
  assumes "env_int parse_int env ''BUFFER_MINUTES'' 30 = Fin B"
    and "\<bar>B * 60000\<bar> \<le> 2 ^ 53" and "\<bar>now + B * 60000\<bar> \<le> 8640000000000000"
  shows "minBookingTime parse_int env now = Some (now + B * 60000)"
proof -
  have "\<bar>now + B * 60000\<bar> \<le> 2 ^ 53" using assms(3) by simp
  then show ?thesis
    using assms by (simp add: minBookingTime_def round_double_exact)
qed

lemma maxBookingTime_exact:
  assumes "env_int parse_int env ''BOOKING_ADVANCE_DAYS'' 7 = Fin D"
    and "\<bar>D * 86400000\<bar> \<le> 2 ^ 53" and "\<bar>now + D * 86400000\<bar> \<le> 8640000000000000"
  shows "maxBookingTime parse_int env now = Some (now + D * 86400000)"
proof -
  have 1: "\<bar>D * 24\<bar> \<le> 2 ^ 53" "\<bar>D * 24 * 60\<bar> \<le> 2 ^ 53" "\<bar>D * 24 * 60 * 60\<bar> \<le> 2 ^ 53"
    "\<bar>D * 24 * 60 * 60 * 1000\<bar> \<le> 2 ^ 53"
    using assms(2) by (simp_all add: abs_mult)
  have 2: "\<bar>now + D * 24 * 60 * 60 * 1000\<bar> \<le> 2 ^ 53" using assms(3) by simp
  show ?thesis
    using assms(1,3) 1 2 by (simp add: maxBookingTime_def round_double_exact)
qed

text \<open>A request with a truthy \<open>booking_date\<close> and \<open>booking_time\<close> whose composed time
  string \<open>ts\<close> parses to the instant \<open>c\<close> reaches the business checks.\<close>

lemma validateBookingRequest_checks:
  assumes "js_get body ''booking_data'' = Inr bd" and "truthy bd"
    and "truthy (js_prop bd ''booking_date'')" and "truthy (js_prop bd ''booking_time'')"
    and "timeString to_string bd = Some ts" and "date_parse ts = Some c"
  shows "validateBookingRequest to_string date_parse parse_int env now body =
    (if date_less (Some c) (minBookingTime parse_int env now)
     then Respond 400 (TooSoon (env_int parse_int env ''BUFFER_MINUTES'' 30))
     else if date_less (maxBookingTime parse_int env now) (Some c)
     then Respond 400 (TooFar (env_int parse_int env ''BOOKING_ADVANCE_DAYS'' 7))
     else
       (case js_prop bd ''booking_time'' of
          JStr booking_time \<Rightarrow>
            if jsint_less (parse_int (hourString booking_time))
                 (env_int parse_int env ''WORK_START_HOUR'' 7) \<or>
               jsint_ge (parse_int (hourString booking_time))
                 (env_int parse_int env ''WORK_END_HOUR'' 19)
            then Respond 400 (OutsideHours (env_int parse_int env ''WORK_START_HOUR'' 7)
                   (env_int parse_int env ''WORK_END_HOUR'' 19))
            else Next ts
        | _ \<Rightarrow> Respond 500 SystemError))"
  using assms
  by (cases "js_prop bd ''booking_time''") (simp_all add: validateBookingRequest_def Let_def)

lemma hourString_prefix:
  assumes "CHR '':'' \<notin> set hs"
  shows "hourString (hs @ CHR '':'' # rest) = hs"
proof -
  have "\<And>x. x \<in> set hs \<Longrightarrow> x \<noteq> CHR '':''" using assms by auto
  then show ?thesis by (simp add: hourString_def takeWhile_append2)
qed

section \<open>Properties of validateBlock\<close>

text \<open>C1. For every block type with a schema and every data value, no required-error is
  emitted for a field whose value is the number \<open>0\<close> or the boolean \<open>false\<close>: neither
  for a top-level field \<open>f\<close>, nor for the sub-field \<open>sf\<close> of the item at index \<open>i\<close> of
  an array field \<open>f\<close>, whatever the rules of the schema say.\<close>

theorem falsy_values_pass_required:
  assumes "validateBlock bt d = Inr res"
    and "v = JNum (Num 0) \<or> v = JBool False"
  shows "(js_prop d f = v \<longrightarrow> FieldRequired f l \<notin> set (errors res)) \<and>
         (js_prop d f = JArr xs \<and> i < length xs \<and> js_prop (xs ! i) sf = v \<longrightarrow>
            SubRequired f i sf l' \<notin> set (errors res))"
  using assms(1)
proof (cases rule: validateBlock_Inr_cases)
  case unknown
  then show ?thesis by simp
next
  case (own s)
  have nonempty: "\<not> is_empty v" using assms(2) by auto
  show ?thesis
    unfolding own(3) in_fields_errors FieldRequired_in_field_errors SubRequired_in_field_errors
    using nonempty by auto
qed

theorem falsy_values_pass_required_witness:
  "validateBlock ''pricing''
     (JObj [(''service_title'', JNum (Num 0)),
            (''subservices'', JArr [JObj [(''id'', JBool False),
               (''subservice_title'', JStr ''A''), (''price'', JNum (Num 0))]])]) =
     Inr \<lparr>valid = True, errors = []\<rparr> \<and>
   FieldRequired ''service_title'' ''x'' \<notin> set (errors \<lparr>valid = True, errors = []\<rparr>) \<and>
   SubRequired ''subservices'' 0 ''id'' None \<notin> set (errors \<lparr>valid = True, errors = []\<rparr>)"
proof -
  let ?d = "JObj [(''service_title'', JNum (Num 0)),
            (''subservices'', JArr [JObj [(''id'', JBool False),
               (''subservice_title'', JStr ''A''), (''price'', JNum (Num 0))]])]"
  have run: "validateBlock ''pricing'' ?d = Inr \<lparr>valid = True, errors = []\<rparr>"
    by (simp add: validateBlock_def lookup_schema_def BLOCK_SCHEMAS_def pricing_schema_def
      js_get_def check_value_def is_empty_def min_items_check_def max_items_check_def
      sub_check_def)
  from falsy_values_pass_required [OF run, of "JNum (Num 0)" "''service_title''" "''x''"]
  have "FieldRequired ''service_title'' ''x'' \<notin> set (errors \<lparr>valid = True, errors = []\<rparr>)"
    by simp
  moreover
  from falsy_values_pass_required [OF run, of "JBool False" "''subservices''" _
      "[JObj [(''id'', JBool False), (''subservice_title'', JStr ''A''), (''price'', JNum (Num 0))]]"
      0 "''id''" None]
  have "SubRequired ''subservices'' 0 ''id'' None \<notin> set (errors \<lparr>valid = True, errors = []\<rparr>)"
    by simp
  ultimately show ?thesis using run by simp
qed

text \<open>C4. For a block type with no entry in the catalog, \<open>validateBlock\<close> is to return
  \<open>valid = false\<close> with the single error naming the type, without reading the data. The
  code does so when the lookup gives \<open>undefined\<close> (lemma \<open>validateBlock_Undefined\<close>), but
  the block type \<open>constructor\<close>, which is no catalog entry either, finds the inherited
  \<open>Object.prototype.constructor\<close>: the unknown-type branch is skipped and reading the
  fields throws.\<close>

theorem validateBlock_constructor_throws:
  "validateBlock ''constructor'' (JObj []) = Inl TypeError"
  by (simp add: validateBlock_def lookup_schema_def BLOCK_SCHEMAS_def object_prototype_keys_def)

text \<open>C5. For an array field, a present value that is not a sequence is to give a
  type-mismatch error. The code does so for a truthy value (lemma
  \<open>truthy_non_array_type_mismatch\<close>), but its test \<open>value && !Array.isArray(value)\<close>
  lets the present values \<open>0\<close>, \<open>NaN\<close> and \<open>false\<close> through, which the required check
  just before has treated as present: the \<open>pricing\<close> block with \<open>subservices: 0\<close> is
  accepted with no error.\<close>

theorem array_field_zero_accepted:
  "validateBlock ''pricing''
     (JObj [(''service_title'', JStr ''X''), (''subservices'', JNum (Num 0))]) =
     Inr \<lparr>valid = True, errors = []\<rparr>"
  by (simp add: validateBlock_def lookup_schema_def BLOCK_SCHEMAS_def pricing_schema_def
      js_get_def check_value_def is_empty_def)

text \<open>C6. Validating the \<open>pricing\<close> block
  \<open>{service_title: "X", subservices: [{id: "a", subservice_title: "A"}]}\<close> returns
  \<open>valid = false\<close> with exactly one error, the required-error of the sub-field at the
  path \<open>subservices[0].price\<close>; its text starts with that path.\<close>

theorem pricing_missing_price:
  "validateBlock ''pricing''
     (JObj [(''service_title'', JStr ''X''),
            (''subservices'',
               JArr [JObj [(''id'', JStr ''a''), (''subservice_title'', JStr ''A'')]])]) =
     Inr \<lparr>valid = False,
          errors = [SubRequired ''subservices'' 0 ''price''
                     (Some (''Gi'' @ [CHR 0xC3, CHR 0xA1] @ '' (VN'' @ [CHR 0xC4, CHR 0x90] @ '')''))]\<rparr>
   \<and> message (SubRequired ''subservices'' 0 ''price''
                (Some (''Gi'' @ [CHR 0xC3, CHR 0xA1] @ '' (VN'' @ [CHR 0xC4, CHR 0x90] @ '')''))) =
     ''subservices[0].price (Gi'' @ [CHR 0xC3, CHR 0xA1] @ '' (VN'' @ [CHR 0xC4, CHR 0x90] @
     '')) l'' @ [CHR 0xC3, CHR 0xA0] @ '' b'' @ [CHR 0xE1, CHR 0xBA, CHR 0xAF] @ ''t bu'' @
     [CHR 0xE1, CHR 0xBB, CHR 0x99] @ ''c''"
  by (simp add: validateBlock_def lookup_schema_def BLOCK_SCHEMAS_def pricing_schema_def
      js_get_def check_value_def is_empty_def min_items_check_def max_items_check_def
      sub_check_def digits.simps)




text \<open>C8. A minimum-bound error for the sub-field \<open>sf\<close> of item \<open>i\<close> of field \<open>f\<close> is
  emitted exactly when the sub-field's rule has kind number and a configured \<open>min\<close>, and
  the sub-value is a number below it. So a sub-value that is not a number never gives a
  bound error.\<close>

theorem sub_min_only_for_numbers:
  assumes "validateBlock bt d = Inr res"
  shows "(SubMin f i sf m \<in> set (errors res) \<longleftrightarrow>
          (\<exists>s r isch sr xs n. lookup_schema bt = Own s \<and> (f, r) \<in> set (fields' s) \<and>
             type r = KArray \<and> itemSchema r = Some isch \<and> (sf, sr) \<in> set isch \<and>
             type sr = KNumber \<and> min_val sr = Some m \<and>
             js_prop d f = JArr xs \<and> i < length xs \<and>
             js_prop (xs ! i) sf = JNum n \<and> num_less n m)) \<and>
         (js_prop d f = JArr xs' \<and> i < length xs' \<and> \<not> is_number (js_prop (xs' ! i) sf) \<longrightarrow>
            SubMin f i sf m \<notin> set (errors res))"
  using assms
proof (cases rule: validateBlock_Inr_cases)
  case unknown
  then show ?thesis by simp
next
  case (own s)
  have num: "is_number w \<and> js_less w m \<longleftrightarrow> (\<exists>n. w = JNum n \<and> num_less n m)" for w
    by (cases w) auto
  show ?thesis
    unfolding own(3) in_fields_errors SubMin_in_field_errors num
    using own(1) by auto blast+
qed

theorem sub_min_only_for_numbers_witness:
  "validateBlock ''pricing''
     (JObj [(''service_title'', JStr ''X''),
            (''subservices'', JArr [
               JObj [(''id'', JStr ''a''), (''subservice_title'', JStr ''A''),
                     (''price'', JNum (Num (- 1)))],
               JObj [(''id'', JStr ''b''), (''subservice_title'', JStr ''B''),
                     (''price'', JStr ''cheap'')]])]) =
     Inr \<lparr>valid = False, errors = [SubMin ''subservices'' 0 ''price'' 0]\<rparr> \<and>
   (\<exists>n. js_prop (JObj [(''id'', JStr ''a''), (''subservice_title'', JStr ''A''),
                     (''price'', JNum (Num (- 1)))]) ''price'' = JNum n \<and> num_less n 0) \<and>
   SubMin ''subservices'' 1 ''price'' 0 \<notin> set [SubMin ''subservices'' 0 ''price'' 0]"
proof -
  let ?x0 = "JObj [(''id'', JStr ''a''), (''subservice_title'', JStr ''A''),
                     (''price'', JNum (Num (- 1)))]"
  let ?x1 = "JObj [(''id'', JStr ''b''), (''subservice_title'', JStr ''B''),
                     (''price'', JStr ''cheap'')]"
  let ?d = "JObj [(''service_title'', JStr ''X''), (''subservices'', JArr [?x0, ?x1])]"
  let ?res = "\<lparr>valid = False, errors = [SubMin ''subservices'' 0 ''price'' 0]\<rparr>"
  have run: "validateBlock ''pricing'' ?d = Inr ?res"
    by (simp add: validateBlock_def lookup_schema_def BLOCK_SCHEMAS_def pricing_schema_def
      js_get_def check_value_def is_empty_def min_items_check_def max_items_check_def
      sub_check_def)
  note inst = sub_min_only_for_numbers [OF run, of "''subservices''" _ "''price''" 0 "[?x0, ?x1]"]
  from inst [of 0] have "\<exists>n. js_prop ?x0 ''price'' = JNum n \<and> num_less n 0"
    by simp
  moreover from inst [of 1]
  have "SubMin ''subservices'' 1 ''price'' 0 \<notin> set [SubMin ''subservices'' 0 ''price'' 0]"
    by simp
  ultimately show ?thesis using run by simp
qed

text \<open>C9. As the claim states it, \<open>validateBlock\<close> never throws, whatever the data. The
  code reads \<open>blockData[fieldName]\<close> and \<open>item[subFieldName]\<close> with no guard: with the
  block type \<open>intro\<close> and the data \<open>null\<close> it throws a \<open>TypeError\<close>.\<close>

theorem validateBlock_null_data_throws:
  "validateBlock ''intro'' JNull = Inl TypeError"
  by (simp add: validateBlock_def lookup_schema_def BLOCK_SCHEMAS_def intro_schema_def
      js_get_def)

text \<open>C9, amended. For a block type that is a key of the catalog or that the lookup does
  not find: \<open>validateBlock\<close> throws exactly when the type is a key of the catalog and
  the data is \<open>null\<close> or \<open>undefined\<close>, or an array field with a non-empty \<open>itemSchema\<close>
  holds an item that is \<open>null\<close> or \<open>undefined\<close>; in every other case it returns a result,
  and \<open>valid\<close> is true exactly when \<open>errors\<close> is empty.\<close>

theorem validateBlock_returns_or_throws:
  assumes "lookup_schema bt \<noteq> Inherited"
  shows "(validateBlock bt d = Inl TypeError \<longleftrightarrow>
           (\<exists>s. lookup_schema bt = Own s \<and>
              (nullish d \<or>
               (\<exists>f r xs isch. (f, r) \<in> set (fields' s) \<and> type r = KArray \<and>
                  js_prop d f = JArr xs \<and> itemSchema r = Some isch \<and> isch \<noteq> [] \<and>
                  (\<exists>x \<in> set xs. nullish x))))) \<and>
         (validateBlock bt d \<noteq> Inl TypeError \<longrightarrow>
           (\<exists>res. validateBlock bt d = Inr res \<and> (valid res \<longleftrightarrow> errors res = [])))"
proof (cases "lookup_schema bt")
  case (Own s)
  then have "fields' s \<noteq> []" using own_well_formed by (auto simp: well_formed_schema_def)
  then have "fields_throw (fields' s) d \<longleftrightarrow>
    nullish d \<or>
    (\<exists>f r xs isch. (f, r) \<in> set (fields' s) \<and> type r = KArray \<and>
        js_prop d f = JArr xs \<and> itemSchema r = Some isch \<and> isch \<noteq> [] \<and>
        (\<exists>x \<in> set xs. nullish x))"
    unfolding fields_throw_iff field_throws_iff by blast
  then show ?thesis using Own by (simp add: validateBlock_Own)
next
  case Inherited
  with assms show ?thesis by simp
next
  case Undefined
  then show ?thesis by (simp add: validateBlock_def)
qed

theorem validateBlock_returns_or_throws_witness:
  "validateBlock ''intro'' (JObj [(''title'', JStr ''T'')]) \<noteq> Inl TypeError \<and>
   (\<exists>res. validateBlock ''intro'' (JObj [(''title'', JStr ''T'')]) = Inr res \<and>
      (valid res \<longleftrightarrow> errors res = []))"
proof -
  have "lookup_schema ''intro'' \<noteq> Inherited" by (simp add: lookup_schema_own_keys)
  from validateBlock_returns_or_throws [OF this, of "JObj [(''title'', JStr ''T'')]"]
  show ?thesis by (auto split: option.splits if_splits)
qed

text \<open>C10. A field rule whose kind is not array gets the required-emptiness check and
  nothing else, whatever its \<open>min\<close> or \<open>options\<close> say: the field's pass pushes the
  required-error when the rule is required and the value empty, and nothing otherwise.
  An item-level sub-field whose kind is not number (a select with \<open>options\<close>, say) is
  checked in the same way only (a number sub-field gets the minimum check besides). So
  in a block of the catalog a field of such a rule with a non-empty value of any type
  contributes no error.\<close>

theorem non_array_field_only_required:
  "(type r \<noteq> KArray \<longrightarrow>
      check_value f r v errs =
        Inr (errs @ (if required r \<and> is_empty v
                     then [FieldRequired f (required_label f r)] else []))) \<and>
   (type sr \<noteq> KNumber \<longrightarrow>
      sub_check f i sf sr v =
        (if required sr \<and> is_empty v then [SubRequired f i sf (label sr)] else [])) \<and>
   (lookup_schema bt = Own s \<and> (f, r) \<in> set (fields' s) \<and> type r \<noteq> KArray \<and>
    \<not> is_empty (js_prop d f) \<and> validateBlock bt d = Inr res \<longrightarrow>
      (\<forall>e \<in> set (errors res). error_field e \<noteq> Some f))"
proof (intro conjI impI)
  assume "type r \<noteq> KArray"
  then show "check_value f r v errs =
        Inr (errs @ (if required r \<and> is_empty v
                     then [FieldRequired f (required_label f r)] else []))"
    by (auto simp: check_value_closed field_throws_def field_errors_def)
next
  assume "type sr \<noteq> KNumber"
  moreover have "\<not> (v \<noteq> JNum (Num 0) \<and> v \<noteq> JBool False) \<Longrightarrow> \<not> is_empty v"
    by auto
  ultimately show "sub_check f i sf sr v =
        (if required sr \<and> is_empty v then [SubRequired f i sf (label sr)] else [])"
    by (auto simp: sub_check_def)
next
  assume a: "lookup_schema bt = Own s \<and> (f, r) \<in> set (fields' s) \<and> type r \<noteq> KArray \<and>
    \<not> is_empty (js_prop d f) \<and> validateBlock bt d = Inr res"
  then have wf: "distinct (map fst (fields' s))"
    using own_well_formed by (auto simp: well_formed_schema_def)
  from a have res: "errors res = fields_errors (fields' s) d"
    by (auto simp: validateBlock_Own split: if_splits)
  have none: "field_errors f r (js_prop d f) = []"
    using a by (simp add: field_errors_def)
  show "\<forall>e \<in> set (errors res). error_field e \<noteq> Some f"
  proof (intro ballI notI)
    fix e assume "e \<in> set (errors res)" "error_field e = Some f"
    then have "e \<in> set (field_errors f r (js_prop d f))"
      using field_errors_of_field [OF wf] a res by auto
    with none show False by simp
  qed
qed

theorem non_array_field_only_required_witness:
  "check_value ''count''
     \<lparr>type = KNumber, label = Some ''Count'', required = True, min_val = Some 5,
      options = None, minItems = None, maxItems = None, itemSchema = None\<rparr>
     (JNum (Num (- 3))) [] = Inr [] \<and>
   sub_check ''form_schema'' 0 ''field_type''
     \<lparr>type = KSelect, label = Some ''Kind'', required = True, min_val = None,
      options = Some [''text'', ''select'', ''date'', ''time'']\<rparr>
     (JStr ''bogus'') = [] \<and>
   validateBlock ''intro''
     (JObj [(''title'', JNum (Num 42)), (''banner_image_url'', JBool True)]) =
     Inr \<lparr>valid = True, errors = []\<rparr> \<and>
   \<not> (\<exists>e \<in> set (errors \<lparr>valid = True, errors = []\<rparr>). error_field e = Some ''title'')"
proof -
  let ?r = "\<lparr>type = KNumber, label = Some ''Count'', required = True, min_val = Some 5,
      options = None, minItems = None, maxItems = None, itemSchema = None\<rparr>"
  let ?sr = "\<lparr>type = KSelect, label = Some ''Kind'', required = True, min_val = None,
      options = Some [''text'', ''select'', ''date'', ''time'']\<rparr>"
  let ?d = "JObj [(''title'', JNum (Num 42)), (''banner_image_url'', JBool True)]"
  let ?res = "\<lparr>valid = True, errors = []\<rparr>"
  have run: "validateBlock ''intro'' ?d = Inr ?res"
    by (simp add: validateBlock_def lookup_schema_def BLOCK_SCHEMAS_def intro_schema_def
      js_get_def check_value_def is_empty_def)
  obtain t where t: "(''title'', t) \<in> set (fields' intro_schema)" "type t \<noteq> KArray"
    by (simp add: intro_schema_def)
  from non_array_field_only_required
    [where r = ?r and f = "''count''" and v = "JNum (Num (- 3))" and errs = "[]"]
  have 1: "check_value ''count'' ?r (JNum (Num (- 3))) [] = Inr []"
    by simp
  from non_array_field_only_required
    [where sr = ?sr and f = "''form_schema''" and i = 0 and sf = "''field_type''"
       and v = "JStr ''bogus''"]
  have 2: "sub_check ''form_schema'' 0 ''field_type'' ?sr (JStr ''bogus'') = []"
    by simp
  from non_array_field_only_required
    [where r = t and f = "''title''" and bt = "''intro''" and s = intro_schema and d = ?d
       and res = ?res]
  have 3: "\<not> (\<exists>e \<in> set (errors ?res). error_field e = Some ''title'')"
    using t run by (simp add: lookup_schema_own_keys)
  from 1 2 3 run show ?thesis by simp
qed

section \<open>Properties of validateBookingRequest\<close>

text \<open>C2. As the claim states it, every configured \<open>BUFFER_MINUTES = B\<close> rejects every
  candidate before \<open>now + B\<close> minutes. The bound is held by a \<open>Date\<close>, and a \<open>Date\<close>
  beyond 8.64e15 milliseconds is invalid and compares false: with
  \<open>BUFFER_MINUTES=200000000000\<close> the candidate \<open>2025-03-12T07:00:00+07:00\<close>, one
  millisecond after \<open>now\<close> and far before the bound, passes the window checks and is
  admitted.\<close>

theorem huge_buffer_admits_everything:
  "(1741737600000 :: int) < 1741737599999 + 200000000000 * 60000 \<and>
   validateBookingRequest (\<lambda>v. None) (\<lambda>s. Some 1741737600000)
     (\<lambda>s. if s = ''200000000000'' then Fin 200000000000
           else if s = ''07'' then Fin 7 else NotANumber)
     (\<lambda>n. if n = ''BUFFER_MINUTES'' then Some ''200000000000'' else None)
     1741737599999
     (JObj [(''booking_data'', JObj [(''booking_date'', JStr ''2025-03-12''),
                                     (''booking_time'', JStr ''07:00'')])])
     = Next ''2025-03-12T07:00:00+07:00''"
  by (simp add: validateBookingRequest_def js_get_def timeString_def env_int_def
      minBookingTime_def maxBookingTime_def round_double_def hourString_def Let_def)

text \<open>C2, amended. For every clock value \<open>now\<close> and configured integers
  \<open>BUFFER_MINUTES = B\<close> and \<open>BOOKING_ADVANCE_DAYS = D\<close> for which \<open>now + B\<close> minutes and
  \<open>now + D\<close> days are instants a \<open>Date\<close> can hold (within 8.64e15 milliseconds of the
  epoch, the products \<open>B * 60000\<close> and \<open>D * 86400000\<close> within \<open>2\<^sup>5\<^sup>3\<close>): a request that
  reaches the window checks with the instant \<open>c\<close> is rejected as too soon exactly when
  \<open>c < now + B\<close> minutes, and as too far exactly when it is not too soon (the first
  failing check answers) and \<open>c > now + D\<close> days of 24 hours. So \<open>c = now + B\<close> minutes
  passes the first check and \<open>c = now + D\<close> days the second.\<close>

theorem booking_window_boundaries:
  assumes "js_get body ''booking_data'' = Inr bd" and "truthy bd"
    and "truthy (js_prop bd ''booking_date'')" and "truthy (js_prop bd ''booking_time'')"
    and "timeString to_string bd = Some ts" and "date_parse ts = Some c"
    and "env_int parse_int env ''BUFFER_MINUTES'' 30 = Fin B"
    and "\<bar>B * 60000\<bar> \<le> 2 ^ 53" and "\<bar>now + B * 60000\<bar> \<le> 8640000000000000"
    and "env_int parse_int env ''BOOKING_ADVANCE_DAYS'' 7 = Fin D"
    and "\<bar>D * 86400000\<bar> \<le> 2 ^ 53" and "\<bar>now + D * 86400000\<bar> \<le> 8640000000000000"
  shows "(validateBookingRequest to_string date_parse parse_int env now body =
            Respond 400 (TooSoon (Fin B)) \<longleftrightarrow> c < now + B * 60000) \<and>
         (validateBookingRequest to_string date_parse parse_int env now body =
            Respond 400 (TooFar (Fin D)) \<longleftrightarrow>
            now + B * 60000 \<le> c \<and> now + D * (24 * 60 * 60 * 1000) < c)"
proof -
  note checks = validateBookingRequest_checks
    [where to_string = to_string and date_parse = date_parse and parse_int = parse_int
       and env = env and now = now, OF assms(1-6)]
  note bounds = minBookingTime_exact [OF assms(7-9)] maxBookingTime_exact [OF assms(10-12)]
  show ?thesis
    unfolding checks bounds assms(7,10)
    by (cases "js_prop bd ''booking_time''") auto
qed

theorem booking_window_boundaries_witness:
  "validateBookingRequest (\<lambda>v. None) (\<lambda>s. Some (1741737600000 + 30 * 60000))
     (\<lambda>s. NotANumber) (\<lambda>n. None) 1741737600000
     (JObj [(''booking_data'', JObj [(''booking_date'', JStr ''2025-03-12''),
                                     (''booking_time'', JStr ''07:30'')])])
     \<noteq> Respond 400 (TooSoon (Fin 30)) \<and>
   validateBookingRequest (\<lambda>v. None) (\<lambda>s. Some (1741737600000 + 29 * 60000))
     (\<lambda>s. NotANumber) (\<lambda>n. None) 1741737600000
     (JObj [(''booking_data'', JObj [(''booking_date'', JStr ''2025-03-12''),
                                     (''booking_time'', JStr ''07:29'')])])
     = Respond 400 (TooSoon (Fin 30)) \<and>
   validateBookingRequest (\<lambda>v. None) (\<lambda>s. Some (1741737600000 + 7 * 86400000))
     (\<lambda>s. NotANumber) (\<lambda>n. None) 1741737600000
     (JObj [(''booking_data'', JObj [(''booking_date'', JStr ''2025-03-19''),
                                     (''booking_time'', JStr ''07:00'')])])
     \<noteq> Respond 400 (TooFar (Fin 7)) \<and>
   validateBookingRequest (\<lambda>v. None) (\<lambda>s. Some (1741737600000 + 7 * 86400000))
     (\<lambda>s. NotANumber) (\<lambda>n. None) (1741737600000 - 1)
     (JObj [(''booking_data'', JObj [(''booking_date'', JStr ''2025-03-19''),
                                     (''booking_time'', JStr ''07:00'')])])
     = Respond 400 (TooFar (Fin 7))"
proof -
  let ?T = "1741737600000 :: int"
  let ?bd = "\<lambda>d t. JObj [(''booking_date'', JStr d), (''booking_time'', JStr t)]"
  let ?body = "\<lambda>d t. JObj [(''booking_data'', ?bd d t)]"
  note any = booking_window_boundaries
    [where to_string = "\<lambda>v. None" and parse_int = "\<lambda>s. NotANumber" and env = "\<lambda>n. None"
       and B = 30 and D = 7]
  note inst = any [where now = ?T]
  have 1: "validateBookingRequest (\<lambda>v. None) (\<lambda>s. Some (?T + 30 * 60000)) (\<lambda>s. NotANumber)
      (\<lambda>n. None) ?T (?body ''2025-03-12'' ''07:30'') \<noteq> Respond 400 (TooSoon (Fin 30))"
    using inst [where date_parse = "\<lambda>s. Some (?T + 30 * 60000)" and c = "?T + 30 * 60000"
        and body = "?body ''2025-03-12'' ''07:30''" and bd = "?bd ''2025-03-12'' ''07:30''"
        and ts = "''2025-03-12T07:30:00+07:00''"]
    by (simp add: js_get_def env_int_def timeString_def)
  have 2: "validateBookingRequest (\<lambda>v. None) (\<lambda>s. Some (?T + 29 * 60000)) (\<lambda>s. NotANumber)
      (\<lambda>n. None) ?T (?body ''2025-03-12'' ''07:29'') = Respond 400 (TooSoon (Fin 30))"
    using inst [where date_parse = "\<lambda>s. Some (?T + 29 * 60000)" and c = "?T + 29 * 60000"
        and body = "?body ''2025-03-12'' ''07:29''" and bd = "?bd ''2025-03-12'' ''07:29''"
        and ts = "''2025-03-12T07:29:00+07:00''"]
    by (simp add: js_get_def env_int_def timeString_def)
  have 3: "validateBookingRequest (\<lambda>v. None) (\<lambda>s. Some (?T + 7 * 86400000)) (\<lambda>s. NotANumber)
      (\<lambda>n. None) ?T (?body ''2025-03-19'' ''07:00'') \<noteq> Respond 400 (TooFar (Fin 7))"
    using inst [where date_parse = "\<lambda>s. Some (?T + 7 * 86400000)" and c = "?T + 7 * 86400000"
        and body = "?body ''2025-03-19'' ''07:00''" and bd = "?bd ''2025-03-19'' ''07:00''"
        and ts = "''2025-03-19T07:00:00+07:00''"]
    by (simp add: js_get_def env_int_def timeString_def)
  have 4: "validateBookingRequest (\<lambda>v. None) (\<lambda>s. Some (?T + 7 * 86400000))
      (\<lambda>s. NotANumber) (\<lambda>n. None) (?T - 1) (?body ''2025-03-19'' ''07:00'')
      = Respond 400 (TooFar (Fin 7))"
    using any [where now = "?T - 1" and date_parse = "\<lambda>s. Some (?T + 7 * 86400000)"
        and c = "?T + 7 * 86400000"
        and body = "?body ''2025-03-19'' ''07:00''" and bd = "?bd ''2025-03-19'' ''07:00''"
        and ts = "''2025-03-19T07:00:00+07:00''"]
    by (simp add: js_get_def env_int_def timeString_def)
  from 1 2 3 4 show ?thesis by simp
qed

text \<open>C3. The hour of the working-hours check is \<open>parseInt\<close> of the text before the first
  colon of the submitted \<open>booking_time\<close> string. For a request that has passed the window
  checks, whatever instant \<open>c\<close> its time string parsed to, the outside-hours rejection
  is sent exactly when that hour is below \<open>WORK_START_HOUR\<close> or at least
  \<open>WORK_END_HOUR\<close>, and the request is admitted otherwise. With the hours 7 and 19,
  \<open>07:00\<close> (whose hour text \<open>07\<close> parses to 7) is admitted and \<open>19:00\<close> is rejected.\<close>

theorem working_hours_use_submitted_hour:
  assumes "js_get body ''booking_data'' = Inr bd" and "truthy bd"
    and "truthy (js_prop bd ''booking_date'')" and "js_prop bd ''booking_time'' = JStr t"
    and "t \<noteq> []"
    and "timeString to_string bd = Some ts" and "date_parse ts = Some c"
    and "\<not> date_less (Some c) (minBookingTime parse_int env now)"
    and "\<not> date_less (maxBookingTime parse_int env now) (Some c)"
    and "env_int parse_int env ''WORK_START_HOUR'' 7 = ws"
    and "env_int parse_int env ''WORK_END_HOUR'' 19 = we"
  shows "(validateBookingRequest to_string date_parse parse_int env now body =
            Respond 400 (OutsideHours ws we) \<longleftrightarrow>
          jsint_less (parse_int (hourString t)) ws \<or> jsint_ge (parse_int (hourString t)) we) \<and>
         (validateBookingRequest to_string date_parse parse_int env now body = Next ts \<longleftrightarrow>
          \<not> (jsint_less (parse_int (hourString t)) ws \<or>
             jsint_ge (parse_int (hourString t)) we)) \<and>
         (\<forall>h a b. parse_int (hourString t) = Fin h \<and> ws = Fin a \<and> we = Fin b \<longrightarrow>
            (validateBookingRequest to_string date_parse parse_int env now body =
               Respond 400 (OutsideHours (Fin a) (Fin b)) \<longleftrightarrow> h < a \<or> b \<le> h)) \<and>
         (\<forall>hs rest. t = hs @ CHR '':'' # rest \<and> CHR '':'' \<notin> set hs \<longrightarrow> hourString t = hs) \<and>
         (ws = Fin 7 \<and> we = Fin 19 \<and> t = ''07:00'' \<and> parse_int ''07'' = Fin 7 \<longrightarrow>
            validateBookingRequest to_string date_parse parse_int env now body = Next ts) \<and>
         (ws = Fin 7 \<and> we = Fin 19 \<and> t = ''19:00'' \<and> parse_int ''19'' = Fin 19 \<longrightarrow>
            validateBookingRequest to_string date_parse parse_int env now body =
              Respond 400 (OutsideHours (Fin 7) (Fin 19)))"
proof -
  have time: "truthy (js_prop bd ''booking_time'')"
    using assms(4,5) by simp
  note checks = validateBookingRequest_checks
    [where to_string = to_string and date_parse = date_parse and parse_int = parse_int
       and env = env and now = now, OF assms(1-3) time assms(6,7)]
  have result: "validateBookingRequest to_string date_parse parse_int env now body =
    (if jsint_less (parse_int (hourString t)) ws \<or> jsint_ge (parse_int (hourString t)) we
     then Respond 400 (OutsideHours ws we) else Next ts)"
    unfolding checks using assms(4,8-) by simp
  have fin: "jsint_less (Fin h) (Fin a) \<or> jsint_ge (Fin h) (Fin b) \<longleftrightarrow> h < a \<or> b \<le> h" for h a b
    by auto
  have h07: "hourString ''07:00'' = ''07''" and h19: "hourString ''19:00'' = ''19''"
    by (simp_all add: hourString_def)
  show ?thesis
    unfolding result using hourString_prefix fin h07 h19 by auto
qed

theorem working_hours_use_submitted_hour_witness:
  "validateBookingRequest (\<lambda>v. None) (\<lambda>s. Some 1741737600000)
     (\<lambda>s. if s = ''07'' then Fin 7 else if s = ''19'' then Fin 19 else NotANumber)
     (\<lambda>n. None) 1741734000000
     (JObj [(''booking_data'', JObj [(''booking_date'', JStr ''2025-03-12''),
                                     (''booking_time'', JStr ''07:00'')])])
     = Next ''2025-03-12T07:00:00+07:00'' \<and>
   validateBookingRequest (\<lambda>v. None) (\<lambda>s. Some 1741780800000)
     (\<lambda>s. if s = ''07'' then Fin 7 else if s = ''19'' then Fin 19 else NotANumber)
     (\<lambda>n. None) 1741734000000
     (JObj [(''booking_data'', JObj [(''booking_date'', JStr ''2025-03-12''),
                                     (''booking_time'', JStr ''19:00'')])])
     = Respond 400 (OutsideHours (Fin 7) (Fin 19)) \<and>
   hourString ''07:00'' = ''07''"
proof -
  let ?now = "1741734000000 :: int"
  let ?P = "\<lambda>s. if s = ''07'' then Fin 7 else if s = ''19'' then Fin 19 else NotANumber"
  let ?bd = "\<lambda>t. JObj [(''booking_date'', JStr ''2025-03-12''), (''booking_time'', JStr t)]"
  let ?body = "\<lambda>t. JObj [(''booking_data'', ?bd t)]"
  have window: "\<not> date_less (Some c) (minBookingTime ?P (\<lambda>n. None) ?now)"
    "\<not> date_less (maxBookingTime ?P (\<lambda>n. None) ?now) (Some c)"
    if "c = 1741737600000 \<or> c = 1741780800000" for c :: int
    using that
    by (auto simp: minBookingTime_def maxBookingTime_def env_int_def round_double_def)
  note inst = working_hours_use_submitted_hour
    [where to_string = "\<lambda>v. None" and parse_int = ?P and env = "\<lambda>n. None" and now = ?now
       and ws = "Fin 7" and we = "Fin 19"]
  note morning = inst [where body = "?body ''07:00''" and bd = "?bd ''07:00''"
      and t = "''07:00''" and ts = "''2025-03-12T07:00:00+07:00''"
      and date_parse = "\<lambda>s. Some 1741737600000" and c = 1741737600000,
      OF _ _ _ _ _ _ _ window]
  note evening = inst [where body = "?body ''19:00''" and bd = "?bd ''19:00''"
      and t = "''19:00''" and ts = "''2025-03-12T19:00:00+07:00''"
      and date_parse = "\<lambda>s. Some 1741780800000" and c = 1741780800000,
      OF _ _ _ _ _ _ _ window]
  have 1: "validateBookingRequest (\<lambda>v. None) (\<lambda>s. Some 1741737600000) ?P (\<lambda>n. None) ?now
      (?body ''07:00'') = Next ''2025-03-12T07:00:00+07:00''"
    using morning by (simp add: js_get_def env_int_def timeString_def)
  have 2: "validateBookingRequest (\<lambda>v. None) (\<lambda>s. Some 1741780800000) ?P (\<lambda>n. None) ?now
      (?body ''19:00'') = Respond 400 (OutsideHours (Fin 7) (Fin 19))"
    using evening by (simp add: js_get_def env_int_def timeString_def)
  have "\<forall>hs rest. ''07:00'' = hs @ CHR '':'' # rest \<and> CHR '':'' \<notin> set hs \<longrightarrow>
      hourString ''07:00'' = hs"
    using morning by (simp add: js_get_def env_int_def timeString_def)
  from this [rule_format, of "''07''" "''00''"]
  have 3: "hourString ''07:00'' = ''07''" by simp
  from 1 2 3 show ?thesis by simp
qed

end
